theory Spec2Isabelle
  imports Main "HOL-Library.AList"
begin

section \<open>Python text\<close>

text \<open>
  A Python \<open>str\<close> is modelled as a \<^typ>\<open>string\<close>. On ASCII text the two agree
  character by character, and every function below computes what Python computes. A
  character outside ASCII appears as its UTF-8 bytes, for which the character classes
  (digits, letters, white space, case mapping) and the lengths are not Python's: the
  statements about arbitrary values are therefore made for ASCII values, see \<open>ascii\<close>.
\<close>

definition ascii_digits :: string where
  "ascii_digits = ''0123456789''"

definition ascii_lowercase :: string where
  "ascii_lowercase = ''abcdefghijklmnopqrstuvwxyz''"

definition ascii_uppercase :: string where
  "ascii_uppercase = ''ABCDEFGHIJKLMNOPQRSTUVWXYZ''"

definition whitespace :: string where
  \<comment> \<open>the ASCII characters for which \<open>str.isspace\<close> holds: TAB, LF, VT, FF, CR, FS, GS, RS, US, SPACE\<close>
  "whitespace = [CHR 0x09, CHR 0x0A, CHR 0x0B, CHR 0x0C, CHR 0x0D,
                 CHR 0x1C, CHR 0x1D, CHR 0x1E, CHR 0x1F, CHR '' '']"


definition is_digit :: "char \<Rightarrow> bool" where
  "is_digit c = (c \<in> set ascii_digits)"

definition is_lower :: "char \<Rightarrow> bool" where
  "is_lower c = (c \<in> set ascii_lowercase)"

definition is_upper :: "char \<Rightarrow> bool" where
  "is_upper c = (c \<in> set ascii_uppercase)"

definition is_alpha :: "char \<Rightarrow> bool" where
  "is_alpha c = (is_lower c \<or> is_upper c)"

definition is_space :: "char \<Rightarrow> bool" where
  "is_space c = (c \<in> set whitespace)"

definition lower_char :: "char \<Rightarrow> char" where
  "lower_char c = (case map_of (zip ascii_uppercase ascii_lowercase) c of Some l \<Rightarrow> l | None \<Rightarrow> c)"

definition upper_char :: "char \<Rightarrow> char" where
  "upper_char c = (case map_of (zip ascii_lowercase ascii_uppercase) c of Some u \<Rightarrow> u | None \<Rightarrow> c)"

definition py_lower :: "string \<Rightarrow> string" where
  \<comment> \<open>\<open>s.lower()\<close>\<close>
  "py_lower s = map lower_char s"

definition strip_chars :: "string \<Rightarrow> string \<Rightarrow> string" where
  \<comment> \<open>\<open>s.strip(chars)\<close>\<close>
  "strip_chars cs s = rev (dropWhile (\<lambda>c. c \<in> set cs) (rev (dropWhile (\<lambda>c. c \<in> set cs) s)))"

definition py_strip :: "string \<Rightarrow> string" where
  \<comment> \<open>\<open>s.strip()\<close>\<close>
  "py_strip s = strip_chars whitespace s"

fun starts_with :: "string \<Rightarrow> string \<Rightarrow> bool" where
  \<comment> \<open>\<open>starts_with p s\<close> is \<open>s.startswith(p)\<close>\<close>
  "starts_with [] s = True"
| "starts_with (p # ps) [] = False"
| "starts_with (p # ps) (c # cs) = (p = c \<and> starts_with ps cs)"

fun py_in :: "string \<Rightarrow> string \<Rightarrow> bool" where
  \<comment> \<open>\<open>py_in p s\<close> is the substring test \<open>p in s\<close>\<close>
  "py_in p [] = (p = [])"
| "py_in p (c # cs) = (starts_with p (c # cs) \<or> py_in p cs)"

definition any_in :: "string list \<Rightarrow> string \<Rightarrow> bool" where
  \<comment> \<open>\<open>any(p in s for p in ps)\<close>\<close>
  "any_in ps s = list_ex (\<lambda>p. py_in p s) ps"

fun split_ws_aux :: "string \<Rightarrow> string \<Rightarrow> string list" where
  "split_ws_aux cur [] = (if cur = [] then [] else [rev cur])"
| "split_ws_aux cur (c # cs) =
     (if is_space c then (if cur = [] then split_ws_aux [] cs else rev cur # split_ws_aux [] cs)
      else split_ws_aux (c # cur) cs)"

definition py_split :: "string \<Rightarrow> string list" where
  \<comment> \<open>\<open>s.split()\<close>: the maximal runs of characters that are not white space\<close>
  "py_split s = split_ws_aux [] s"

fun split_on :: "char \<Rightarrow> string \<Rightarrow> string list" where
  \<comment> \<open>\<open>s.split(d)\<close> for a one-character separator\<close>
  "split_on d [] = [[]]"
| "split_on d (c # cs) =
     (if c = d then [] # split_on d cs
      else (case split_on d cs of w # ws \<Rightarrow> (c # w) # ws | [] \<Rightarrow> [[c]]))"

definition replace_char :: "char \<Rightarrow> string \<Rightarrow> string \<Rightarrow> string" where
  \<comment> \<open>\<open>s.replace(old, new)\<close> for a one-character \<open>old\<close>\<close>
  "replace_char old new s = concat (map (\<lambda>c. if c = old then new else [c]) s)"

fun title_aux :: "bool \<Rightarrow> string \<Rightarrow> string" where
  "title_aux prev [] = []"
| "title_aux prev (c # cs) =
     (if is_lower c then (if prev then c else upper_char c) # title_aux True cs
      else if is_upper c then (if prev then lower_char c else c) # title_aux True cs
      else c # title_aux False cs)"

definition py_title :: "string \<Rightarrow> string" where
  \<comment> \<open>\<open>s.title()\<close>: a cased character is upper-cased after an uncased one and lower-cased after a cased one\<close>
  "py_title s = title_aux False s"

definition py_isalpha :: "string \<Rightarrow> bool" where
  "py_isalpha s = (s \<noteq> [] \<and> list_all is_alpha s)"


subsection \<open>Integers and text\<close>

fun digits_of :: "nat \<Rightarrow> string" where
  "digits_of n = (if n < 10 then [ascii_digits ! n]
                  else digits_of (n div 10) @ [ascii_digits ! (n mod 10)])"

declare digits_of.simps [simp del]

definition py_str :: "int \<Rightarrow> string" where
  \<comment> \<open>\<open>str(n)\<close>, the text an f-string puts for \<open>{n}\<close>\<close>
  "py_str n = (if n < 0 then CHR ''-'' # digits_of (nat (- n)) else digits_of (nat n))"

definition fmt_02d :: "int \<Rightarrow> string" where
  \<comment> \<open>\<open>f"{n:02d}"\<close>: zero-padded to width two, the sign counted in the width\<close>
  "fmt_02d n = (if n < 0 then py_str n
                else if n < 10 then CHR ''0'' # py_str n else py_str n)"

definition digit_val :: "char \<Rightarrow> nat" where
  "digit_val c = (case map_of (zip ascii_digits [0 ..< 10]) c of Some v \<Rightarrow> v | None \<Rightarrow> 0)"

definition nat_of_digits :: "string \<Rightarrow> nat" where
  "nat_of_digits ds = foldl (\<lambda>acc c. 10 * acc + digit_val c) 0 ds"

fun int_literal_ok :: "string \<Rightarrow> bool" where
  \<comment> \<open>digits, with single underscores allowed between two digits\<close>
  "int_literal_ok [] = False"
| "int_literal_ok [c] = is_digit c"
| "int_literal_ok (c # d # cs) =
     (is_digit c \<and> (if d = CHR ''_'' then int_literal_ok cs else int_literal_ok (d # cs)))"

definition int_space :: string where
  \<comment> \<open>the characters \<open>int()\<close> skips around the literal of an ASCII text: TAB, LF, VT, FF, CR, SPACE\<close>
  "int_space = [CHR 0x09, CHR 0x0A, CHR 0x0B, CHR 0x0C, CHR 0x0D, CHR '' '']"

definition py_int :: "string \<Rightarrow> int option" where
  \<comment> \<open>\<open>int(s)\<close> on ASCII text; \<open>None\<close> stands for \<open>ValueError\<close>. The characters of
      \<open>int_space\<close> around the literal are dropped (not the separators 0x1C to 0x1F, which
      \<open>str.strip\<close> would drop), one sign is allowed, and a literal of more than 4300 digits
      is refused (the default limit of CPython from 3.11 on).\<close>
  "py_int s =
     (let t = strip_chars int_space s;
          neg = (t \<noteq> [] \<and> hd t = CHR ''-'');
          body = (if t \<noteq> [] \<and> (hd t = CHR ''-'' \<or> hd t = CHR ''+'') then tl t else t)
      in if int_literal_ok body \<and> length (filter is_digit body) \<le> 4300
         then Some ((if neg then - 1 else 1) * int (nat_of_digits (filter (\<lambda>c. c \<noteq> CHR ''_'') body)))
         else None)"

section \<open>Regular expressions\<close>

text \<open>
  The patterns of the source are run by a small backtracking matcher that returns the
  successful continuations in the order in which Python's \<open>re\<close> module tries them:
  the first one is the match \<open>re\<close> reports. A matching position is the character before
  it (if any), the text after it, and the groups captured so far.
\<close>

datatype rx =
    Cls string                      \<comment> \<open>one character of the class\<close>
  | Seq rx rx
  | Alt rx rx
  | Rep nat "nat option" string     \<comment> \<open>greedy repetition \<open>{lo,hi}\<close> of a class; no upper bound is \<open>None\<close>\<close>
  | Grp rx                          \<comment> \<open>a capturing group\<close>
  | Wordb                           \<comment> \<open>\<open>\b\<close>\<close>
  | Bol                             \<comment> \<open>\<open>^\<close>\<close>
  | Eol                             \<comment> \<open>\<open>$\<close>\<close>

type_synonym rx_pos = "char option \<times> string \<times> string list"

definition word_chars :: string where
  \<comment> \<open>\<open>\w\<close>\<close>
  "word_chars = ascii_lowercase @ ascii_uppercase @ ascii_digits @ ''_''"

definition at_word_boundary :: "char option \<Rightarrow> string \<Rightarrow> bool" where
  "at_word_boundary p s =
     ((case p of None \<Rightarrow> False | Some c \<Rightarrow> c \<in> set word_chars)
      \<noteq> (case s of [] \<Rightarrow> False | c # _ \<Rightarrow> c \<in> set word_chars))"

definition advance :: "nat \<Rightarrow> rx_pos \<Rightarrow> rx_pos" where
  "advance k pos = (case pos of (p, s, caps) \<Rightarrow>
     (if k = 0 then p else Some (s ! (k - 1)), drop k s, caps))"

fun rx_match :: "rx \<Rightarrow> rx_pos \<Rightarrow> rx_pos list" where
  "rx_match (Cls cs) (p, s, caps) =
     (case s of [] \<Rightarrow> [] | c # t \<Rightarrow> if c \<in> set cs then [(Some c, t, caps)] else [])"
| "rx_match (Seq a b) pos = concat (map (rx_match b) (rx_match a pos))"
| "rx_match (Alt a b) pos = rx_match a pos @ rx_match b pos"
| "rx_match (Rep lo hi cs) (p, s, caps) =
     (let avail = length (takeWhile (\<lambda>c. c \<in> set cs) s);
          most = (case hi of None \<Rightarrow> avail | Some h \<Rightarrow> min h avail)
      in map (\<lambda>k. advance k (p, s, caps)) (rev [lo ..< Suc most]))"
| "rx_match (Grp a) (p, s, caps) =
     map (\<lambda>(q, t, caps'). (q, t, caps' @ [take (length s - length t) s])) (rx_match a (p, s, caps))"
| "rx_match Wordb (p, s, caps) = (if at_word_boundary p s then [(p, s, caps)] else [])"
| "rx_match Bol (p, s, caps) = (if p = None then [(p, s, caps)] else [])"
| "rx_match Eol (p, s, caps) = (if s = [] \<or> s = [CHR 0x0A] then [(p, s, caps)] else [])"

definition re_match :: "rx \<Rightarrow> string \<Rightarrow> rx_pos option" where
  \<comment> \<open>\<open>re.match(r, s)\<close>: the first way to match at the start of \<open>s\<close>\<close>
  "re_match r s = (case rx_match r (None, s, []) of [] \<Rightarrow> None | pos # _ \<Rightarrow> Some pos)"

fun search_from :: "rx \<Rightarrow> char option \<Rightarrow> string \<Rightarrow> string option" where
  "search_from r p s =
     (case rx_match r (p, s, []) of
        (q, t, caps) # _ \<Rightarrow> Some (take (length s - length t) s)
      | [] \<Rightarrow> (case s of [] \<Rightarrow> None | c # cs \<Rightarrow> search_from r (Some c) cs))"

definition findall_first :: "rx \<Rightarrow> string \<Rightarrow> string option" where
  \<comment> \<open>the first element of \<open>re.findall(r, s)\<close> for a pattern without groups; \<open>None\<close> when the list is empty\<close>
  "findall_first r s = search_from r None s"


definition seqs :: "rx list \<Rightarrow> rx" where
  \<comment> \<open>concatenation of the patterns of a list\<close>
  "seqs rs = foldr Seq rs (Rep 0 (Some 0) [])"


text \<open>
  The texts a pattern can match, whatever surrounds them: the assertions \<open>\b\<close>, \<open>^\<close>
  and \<open>$\<close> match the empty text.
\<close>

fun lang :: "rx \<Rightarrow> string set" where
  "lang (Cls cs) = {[c] | c. c \<in> set cs}"
| "lang (Seq a b) = {u @ v | u v. u \<in> lang a \<and> v \<in> lang b}"
| "lang (Alt a b) = lang a \<union> lang b"
| "lang (Rep lo hi cs) =
     {u. lo \<le> length u \<and> (case hi of None \<Rightarrow> True | Some h \<Rightarrow> length u \<le> h) \<and> set u \<subseteq> set cs}"
| "lang (Grp a) = lang a"
| "lang Wordb = {[]}"
| "lang Bol = {[]}"
| "lang Eol = {[]}"

section \<open>Dictionaries\<close>

text \<open>
  A Python \<open>dict\<close> from text to text is an association list in insertion order:
  \<^const>\<open>AList.update\<close> replaces the value of a key that is present, at its place, and
  appends a new key at the end, as an assignment \<open>d[k] = v\<close> does.
\<close>

type_synonym dict = "(string \<times> string) list"

definition has_key :: "dict \<Rightarrow> string \<Rightarrow> bool" where
  \<comment> \<open>\<open>k in d\<close>\<close>
  "has_key d k = (map_of d k \<noteq> None)"

definition dict_update :: "dict \<Rightarrow> dict \<Rightarrow> dict" where
  \<comment> \<open>\<open>d.update(e)\<close>\<close>
  "dict_update d e = fold (\<lambda>(k, v). AList.update k v) e d"


definition fresh_keys :: "dict \<Rightarrow> dict \<Rightarrow> bool" where
  \<comment> \<open>no key of the first dictionary is a key of the second\<close>
  "fresh_keys known extracted = (\<forall>field. has_key known field \<longrightarrow> \<not> has_key extracted field)"



definition sq :: string where
  \<comment> \<open>the apostrophe\<close>
  "sq = [CHR 0x27]"

definition dq :: string where
  \<comment> \<open>the double quote\<close>
  "dq = [CHR 0x22]"

definition nl :: string where
  "nl = [CHR 0x0A]"

section \<open>Dates and the clock\<close>

datatype py_exn = ValueError | IndexError | OverflowError























record datetime =
  year :: int
  month :: int
  day :: int
  hour :: int
  minute :: int
  second :: int
  microsecond :: int





section \<open>The service catalog (\<open>BookingFlow.__init__\<close>)\<close>

record service_info =
  price :: int
  icon :: string
  message :: string


definition service_pricing :: "(string \<times> service_info) list" where
  "service_pricing =
    [(''Doctor Appointment'', \<lparr>price = 100, icon = [CHR 0xF0, CHR 0x9F, CHR 0x8F, CHR 0xA5], message = ''Your health is our priority!''\<rparr>),
     (''Salon Service'', \<lparr>price = 50, icon = [CHR 0xF0, CHR 0x9F, CHR 0x92, CHR 0x87], message = ''Get ready to look fabulous!''\<rparr>),
     (''Hotel Reservation'', \<lparr>price = 150, icon = [CHR 0xF0, CHR 0x9F, CHR 0x8F, CHR 0xA8], message = ''Enjoy your comfortable stay!''\<rparr>),
     (''Event Booking'', \<lparr>price = 200, icon = [CHR 0xF0, CHR 0x9F, CHR 0x8E, CHR 0x89],
        message = ''Let'' @ sq @ ''s make your event memorable!''\<rparr>),
     (''Fitness Class'', \<lparr>price = 30, icon = [CHR 0xF0, CHR 0x9F, CHR 0x92, CHR 0xAA], message = ''Time to get fit and healthy!''\<rparr>),
     (''Restaurant Reservation'', \<lparr>price = 0, icon = [CHR 0xF0, CHR 0x9F, CHR 0x8D, CHR 0xBD] @ [CHR 0xEF, CHR 0xB8, CHR 0x8F],
        message = ''Bon app'' @ [CHR 0xC3, CHR 0xA9] @ ''tit! Enjoy your meal!''\<rparr>),
     (''Travel Booking'', \<lparr>price = 500, icon = [CHR 0xE2, CHR 0x9C, CHR 0x88] @ [CHR 0xEF, CHR 0xB8, CHR 0x8F], message = ''Have an amazing journey!''\<rparr>),
     (''Spa Treatment'', \<lparr>price = 120, icon = [CHR 0xF0, CHR 0x9F, CHR 0xA7, CHR 0x96], message = ''Relax and rejuvenate!''\<rparr>),
     (''Consultation'', \<lparr>price = 80, icon = [CHR 0xF0, CHR 0x9F, CHR 0x93, CHR 0x8B], message = ''We look forward to helping you!''\<rparr>)]"





section \<open>The collaborators\<close>

text \<open>
  What a turn takes from outside the program is a parameter of the model: the clock
  (read once per turn), the reply of the language model to a list of messages (\<open>None\<close>
  when the call raises), whether the confirmation mail goes out (\<open>send_booking_email\<close>
  of \<open>tools.py\<close> returns a truth value and raises nothing), and a failure of the
  database, given by the text of the exception that \<open>create_booking\<close> lets out.
\<close>

record env =
  now :: datetime
  llm_invoke :: "(string \<times> string) list \<Rightarrow> string option"
  send_booking_email :: "dict \<Rightarrow> int \<Rightarrow> bool"
  db_fault :: "string option"






definition sample_env :: env where
  \<comment> \<open>a sample environment: the clock shows 2026-11-03 10:30, the language model is out of
      reach, mails go out and the database works\<close>
  "sample_env =
     \<lparr>now = \<lparr>year = 2026, month = 11, day = 3, hour = 10, minute = 30, second = 0, microsecond = 0\<rparr>,
      llm_invoke = (\<lambda>messages. None), send_booking_email = (\<lambda>d i. True), db_fault = None\<rparr>"

definition dog_walking_env :: env where
  \<comment> \<open>the sample environment with a language model that answers every request with the text
      \<open> "Dog Walking"\<close> and a line break: a service that is not in the table\<close>
  "dog_walking_env = sample_env\<lparr>llm_invoke := (\<lambda>messages. Some ('' '' @ dq @ ''Dog Walking'' @ dq @ nl))\<rparr>"




section \<open>Field extraction (\<open>BookingFlow._extract_booking_info\<close>)\<close>

definition email_chars_local :: string where
  \<comment> \<open>\<open>[A-Za-z0-9._%+-]\<close>\<close>
  "email_chars_local = ascii_uppercase @ ascii_lowercase @ ascii_digits @ ''._%+-''"

definition email_chars_domain :: string where
  \<comment> \<open>\<open>[A-Za-z0-9.-]\<close>\<close>
  "email_chars_domain = ascii_uppercase @ ascii_lowercase @ ascii_digits @ ''.-''"

definition email_chars_tld :: string where
  \<comment> \<open>\<open>[A-Z|a-z]\<close>: the bar is a member of the class\<close>
  "email_chars_tld = ascii_uppercase @ ''|'' @ ascii_lowercase"

definition email_pattern :: rx where
  \<comment> \<open>\<open>\b[A-Za-z0-9._%+-]+@[A-Za-z0-9.-]+\.[A-Z|a-z]{2,}\b\<close>\<close>
  "email_pattern = seqs [Wordb, Rep 1 None email_chars_local, Cls ''@'', Rep 1 None email_chars_domain,
                         Cls ''.'', Rep 2 None email_chars_tld, Wordb]"

definition email_format :: rx where
  \<comment> \<open>\<open>^[A-Za-z0-9._%+-]+@[A-Za-z0-9.-]+\.[A-Z|a-z]{2,}$\<close>\<close>
  "email_format = seqs [Bol, Rep 1 None email_chars_local, Cls ''@'', Rep 1 None email_chars_domain,
                        Cls ''.'', Rep 2 None email_chars_tld, Eol]"

definition phone_pattern :: rx where
  \<comment> \<open>\<open>\b\d{10,15}\b\<close>\<close>
  "phone_pattern = seqs [Wordb, Rep 10 (Some 15) ascii_digits, Wordb]"

definition date_pattern :: rx where
  \<comment> \<open>\<open>\b\d{4}-\d{2}-\d{2}\b\<close>\<close>
  "date_pattern = seqs [Wordb, Rep 4 (Some 4) ascii_digits, Cls ''-'', Rep 2 (Some 2) ascii_digits,
                        Cls ''-'', Rep 2 (Some 2) ascii_digits, Wordb]"

definition time_pattern :: rx where
  \<comment> \<open>\<open>\b\d{1,2}:\d{2}\b\<close>\<close>
  "time_pattern = seqs [Wordb, Rep 1 (Some 2) ascii_digits, Cls '':'', Rep 2 (Some 2) ascii_digits, Wordb]"


definition service_keywords :: "(string \<times> string list) list" where
  "service_keywords =
    [(''Doctor Appointment'', [''doctor'', ''medical'', ''physician'', ''healthcare'', ''clinic'', ''checkup'',
                               ''consultation'', ''appointment'']),
     (''Salon Service'', [''salon'', ''haircut'', ''hair'', ''beauty'', ''manicure'', ''pedicure'', ''styling'']),
     (''Hotel Reservation'', [''hotel'', ''room'', ''accommodation'', ''stay'', ''resort'', ''lodge'']),
     (''Event Booking'', [''event'', ''party'', ''celebration'', ''wedding'', ''conference'', ''meeting'']),
     (''Fitness Class'', [''fitness'', ''gym'', ''workout'', ''exercise'', ''yoga'', ''training'', ''class'']),
     (''Restaurant Reservation'', [''restaurant'', ''dining'', ''dinner'', ''lunch'', ''table'', ''food'', ''eat'']),
     (''Travel Booking'', [''travel'', ''trip'', ''tour'', ''vacation'', ''flight'', ''ticket'', ''journey'']),
     (''Spa Treatment'', [''spa'', ''massage'', ''treatment'', ''therapy'', ''relaxation'', ''wellness'']),
     (''Consultation'', [''consult'', ''advice'', ''guidance'', ''counseling''])]"

definition join_comma :: "string list \<Rightarrow> string" where
  \<comment> \<open>\<open>', '.join(xs)\<close>\<close>
  "join_comma xs = (case xs of [] \<Rightarrow> [] | x # rest \<Rightarrow> x @ concat (map (\<lambda>y. '', '' @ y) rest))"

definition llm_prompt :: "string \<Rightarrow> string \<Rightarrow> string" where
  "llm_prompt text field =
     (if field = ''booking_type''
      then ''Extract service type from: '' @ dq @ text @ dq @ nl @
           ''Available: '' @ join_comma (map fst service_pricing) @ nl @
           ''Reply with ONLY the exact service name or '' @ dq @ ''NOT_FOUND'' @ dq @ ''.'' @ nl @
           ''Service:''
      else ''Extract '' @ field @ '' from: '' @ dq @ text @ dq @ nl @
           ''Reply ONLY the value or '' @ dq @ ''NOT_FOUND'' @ dq @ ''.'' @ nl @
           field @ '':'')"

definition extract_with_llm :: "env \<Rightarrow> string \<Rightarrow> string \<Rightarrow> string option" where
  \<comment> \<open>\<open>_extract_with_llm\<close>: \<open>None\<close> is Python's \<open>None\<close>, also returned when the call raises\<close>
  "extract_with_llm e text field =
     (case llm_invoke e [(''system'', ''You are a data extraction assistant.''),
                         (''human'', llm_prompt text field)] of
        None \<Rightarrow> None
      | Some content \<Rightarrow>
          (let result = strip_chars sq (strip_chars dq (py_strip content))
           in if result \<noteq> [] \<and> result \<noteq> ''NOT_FOUND'' \<and> length result < 100 then Some result else None))"

definition extract_booking_type :: "env \<Rightarrow> string \<Rightarrow> string option" where
  \<comment> \<open>\<open>_extract_booking_type\<close>: the first service of the table one of whose keywords occurs in the text\<close>
  "extract_booking_type e text =
     (let text_lower = py_strip (py_lower text)
      in case find (\<lambda>(service_type, keywords). any_in keywords text_lower) service_keywords of
           Some (service_type, keywords) \<Rightarrow> Some service_type
         | None \<Rightarrow> extract_with_llm e text ''booking_type'')"

definition extract_email :: "string \<Rightarrow> dict \<Rightarrow> dict \<Rightarrow> dict" where
  "extract_email user_message existing_data extracted =
     (case findall_first email_pattern user_message of
        Some m \<Rightarrow> if \<not> has_key existing_data ''email'' then AList.update ''email'' m extracted else extracted
      | None \<Rightarrow> extracted)"

definition extract_phone :: "string \<Rightarrow> dict \<Rightarrow> dict \<Rightarrow> dict" where
  "extract_phone user_message existing_data extracted =
     (case findall_first phone_pattern user_message of
        Some m \<Rightarrow> if \<not> has_key existing_data ''phone'' then AList.update ''phone'' m extracted else extracted
      | None \<Rightarrow> extracted)"

definition extract_date :: "string \<Rightarrow> dict \<Rightarrow> dict \<Rightarrow> dict" where
  "extract_date user_message existing_data extracted =
     (case findall_first date_pattern user_message of
        Some m \<Rightarrow> if \<not> has_key existing_data ''date'' then AList.update ''date'' m extracted else extracted
      | None \<Rightarrow> extracted)"

definition extract_time :: "string \<Rightarrow> dict \<Rightarrow> dict \<Rightarrow> py_exn + dict" where
  \<comment> \<open>\<open>time_parts = times[0].split(':')\<close>, then \<open>f"{int(time_parts[0]):02d}:{time_parts[1]}"\<close>\<close>
  "extract_time user_message existing_data extracted =
     (case findall_first time_pattern user_message of
        Some m \<Rightarrow>
          if \<not> has_key existing_data ''time'' then
            (case split_on CHR '':'' m of
               h # mi # rest \<Rightarrow>
                 (case py_int h of
                    Some n \<Rightarrow> Inr (AList.update ''time'' (fmt_02d n @ '':'' @ mi) extracted)
                  | None \<Rightarrow> Inl ValueError)
             | _ \<Rightarrow> Inl IndexError)
          else Inr extracted
      | None \<Rightarrow> Inr extracted)"

definition name_blockers :: "string list" where
  \<comment> \<open>the at sign, \<open>.com\<close>, the colon, the hyphen and the ten digits\<close>
  "name_blockers = [''@'', ''.com'', '':'', ''-''] @ map (\<lambda>c. [c]) ascii_digits"

definition booking_phrases :: "string list" where
  "booking_phrases = [''book'', ''appointment'', ''reservation'', ''schedule'', ''want'', ''need'', ''service'']"

definition extract_name :: "string \<Rightarrow> dict \<Rightarrow> dict \<Rightarrow> dict" where
  "extract_name user_message existing_data extracted =
     (if \<not> has_key existing_data ''name'' \<and> length (py_split user_message) \<le> 5 then
        (let clean_msg = py_strip user_message
         in if clean_msg \<noteq> [] \<and> \<not> any_in name_blockers clean_msg
               \<and> \<not> any_in booking_phrases (py_lower clean_msg)
               \<and> length clean_msg < 50
               \<and> py_isalpha (replace_char CHR ''-'' [] (replace_char CHR '' '' [] clean_msg))
            then AList.update ''name'' (py_title clean_msg) extracted
            else extracted)
      else extracted)"

definition extract_service :: "env \<Rightarrow> string \<Rightarrow> dict \<Rightarrow> dict \<Rightarrow> dict" where
  "extract_service e user_message existing_data extracted =
     (if \<not> has_key existing_data ''booking_type'' then
        (case extract_booking_type e user_message of
           Some booking_type \<Rightarrow>
             if booking_type \<noteq> [] then AList.update ''booking_type'' booking_type extracted else extracted
         | None \<Rightarrow> extracted)
      else extracted)"

definition extract_booking_info :: "env \<Rightarrow> string \<Rightarrow> dict \<Rightarrow> py_exn + dict" where
  "extract_booking_info e user_message existing_data =
     (case extract_time user_message existing_data
             (extract_date user_message existing_data
               (extract_phone user_message existing_data
                 (extract_email user_message existing_data []))) of
        Inl x \<Rightarrow> Inl x
      | Inr extracted \<Rightarrow>
          Inr (extract_service e user_message existing_data
                (extract_name user_message existing_data extracted)))"

section \<open>Validation (\<open>BookingFlow._validate_extracted_data\<close>)\<close>


definition validate_email :: "dict \<Rightarrow> dict \<Rightarrow> dict" where
  "validate_email extracted_data errors =
     (case map_of extracted_data ''email'' of
        None \<Rightarrow> errors
      | Some email \<Rightarrow>
          if re_match email_format email = None
          then AList.update ''email'' (sq @ email @ sq @ '' is not valid. Use format: name@example.com'') errors
          else errors)"












section \<open>The replies\<close>












section \<open>Persistence (\<open>BookingFlow._save_booking\<close>)\<close>


section \<open>The booking state machine\<close>











section \<open>Intent detection (\<open>ChatLogic.detect_intent\<close>)\<close>

record chat_message =
  role :: string
  content :: string

definition non_booking_phrases :: "string list" where
  "non_booking_phrases =
     [''upload'', ''uploaded'', ''document'', ''pdf'', ''file'',
      ''hi'', ''hello'', ''hey'', ''good morning'', ''good afternoon'',
      ''how are you'', ''what can you do'', ''help'',
      ''thank'', ''thanks'', ''bye'', ''goodbye'']"

definition booking_questions :: "string list" where
  "booking_questions =
     [''your name'', ''your email'', ''your phone'', ''what date'', ''what time'',
      ''type of service'', ''confirm your booking'', ''is this correct'']"

definition widget_phrases :: "string list" where
  "widget_phrases = [''use selected date'', ''use selected time'', ''selected date'', ''selected time'']"

definition booking_keywords :: "string list" where
  "booking_keywords =
     [''book a'', ''make a booking'', ''make an appointment'',
      ''schedule a'', ''reserve a'', ''i want to book'',
      ''i need to book'', ''i would like to book'',
      ''book appointment'', ''make reservation'',
      ''can i book'', ''can i schedule'']"

definition booking_indicators :: "string list" where
  "booking_indicators =
     [''information collected so far'', ''your name?'', ''your email'', ''your phone'',
      ''what date'', ''what time'', ''type of service'', ''confirm your booking'']"

definition last3 :: "'a list \<Rightarrow> 'a list" where
  \<comment> \<open>\<open>xs[-3:]\<close>\<close>
  "last3 xs = drop (length xs - 3) xs"

definition recent_assistant_msg :: "chat_message list \<Rightarrow> string option" where
  \<comment> \<open>the lower-cased text of the latest assistant message among the last three\<close>
  "recent_assistant_msg conversation_history =
     (case find (\<lambda>msg. role msg = ''assistant'') (rev (last3 conversation_history)) of
        Some msg \<Rightarrow> Some (py_lower (content msg))
      | None \<Rightarrow> None)"

definition detect_intent :: "string \<Rightarrow> chat_message list \<Rightarrow> string" where
  "detect_intent user_message conversation_history =
     (let user_message_lower = py_strip (py_lower user_message)
      in if any_in non_booking_phrases user_message_lower then
           (if conversation_history \<noteq> []
               \<and> (case recent_assistant_msg conversation_history of
                     Some m \<Rightarrow> m \<noteq> [] \<and> any_in booking_questions m
                   | None \<Rightarrow> False)
            then ''booking''
            else if user_message_lower \<notin> set [''hi'', ''hello'', ''hey''] then ''query'' else ''general'')
         else if any_in widget_phrases user_message_lower then ''booking''
         else if any_in booking_keywords user_message_lower then ''booking''
         else if conversation_history \<noteq> []
                 \<and> list_ex (\<lambda>msg. role msg = ''assistant''
                                  \<and> any_in booking_indicators (py_lower (content msg)))
                       (last3 conversation_history)
         then ''booking''
         else ''query'')"

section \<open>Reachable sessions\<close>



section \<open>Facts about text\<close>

lemma starts_with_append: "starts_with p s \<Longrightarrow> starts_with p (s @ b)"
  by (induction p s rule: starts_with.induct) auto

lemma py_in_Nil: "py_in [] s"
  by (cases s) simp_all

lemma py_in_append_right: "py_in p s \<Longrightarrow> py_in p (s @ b)"
proof (induction s)
  case Nil
  then show ?case by (simp add: py_in_Nil)
next
  case (Cons c s)
  then show ?case using starts_with_append [of p "c # s" b] by auto
qed

lemma py_in_append_left: "py_in p s \<Longrightarrow> py_in p (a @ s)"
  by (induction a) simp_all

lemma py_in_middle: "py_in p s \<Longrightarrow> py_in p (a @ s @ b)"
  by (simp add: py_in_append_left py_in_append_right)

lemma recent_in_last3:
  assumes "length after \<le> 2"
  shows "m \<in> set (last3 (before @ [m] @ after))"
proof -
  have "length (before @ [m] @ after) - 3 \<le> length before" using assms by simp
  then have "drop (length (before @ [m] @ after) - 3) (before @ [m] @ after)
      = drop (length (before @ [m] @ after) - 3) before @ [m] @ after"
    by simp
  then show ?thesis by (simp add: last3_def)
qed

section \<open>Intent detection on the three utterances\<close>

lemma detect_intent_hi: "detect_intent ''hi'' [] = ''general''"
  by code_simp

lemma detect_intent_book: "detect_intent ''book a doctor appointment'' history = ''booking''"
proof -
  have 1: "py_strip (py_lower ''book a doctor appointment'') = ''book a doctor appointment''"
    by code_simp
  have 2: "\<not> any_in non_booking_phrases ''book a doctor appointment''" by code_simp
  have 3: "\<not> any_in widget_phrases ''book a doctor appointment''" by code_simp
  have 4: "any_in booking_keywords ''book a doctor appointment''" by code_simp
  show ?thesis unfolding detect_intent_def Let_def 1 using 2 3 4 by simp
qed

lemma detect_intent_email_reply:
  assumes "length after \<le> 2"
  shows "detect_intent ''john@example.com''
     (before @ [\<lparr>role = ''assistant'', content = pre @ ''What'' @ sq @ ''s your email address?'' @ post\<rparr>]
        @ after)
   = ''booking''"
proof -
  let ?m = "\<lparr>role = ''assistant'', content = pre @ ''What'' @ sq @ ''s your email address?'' @ post\<rparr>"
  have 1: "py_strip (py_lower ''john@example.com'') = ''john@example.com''" by code_simp
  have 2: "\<not> any_in non_booking_phrases ''john@example.com''" by code_simp
  have 3: "\<not> any_in widget_phrases ''john@example.com''" by code_simp
  have 4: "\<not> any_in booking_keywords ''john@example.com''" by code_simp
  have "py_in ''your email'' (py_lower (''What'' @ sq @ ''s your email address?''))" by code_simp
  then have "py_in ''your email''
        (py_lower pre @ py_lower (''What'' @ sq @ ''s your email address?'') @ py_lower post)"
    by (rule py_in_middle)
  moreover have "py_lower (content ?m)
      = py_lower pre @ py_lower (''What'' @ sq @ ''s your email address?'') @ py_lower post"
    by (simp add: py_lower_def)
  ultimately have "py_in ''your email'' (py_lower (content ?m))"
    by (simp only:)
  then have 5: "any_in booking_indicators (py_lower (content ?m))"
    by (simp add: any_in_def booking_indicators_def)
  have 6: "?m \<in> set (last3 (before @ [?m] @ after))" using assms by (rule recent_in_last3)
  have 7: "list_ex (\<lambda>msg. role msg = ''assistant'' \<and> any_in booking_indicators (py_lower (content msg)))
            (last3 (before @ [?m] @ after))"
    unfolding list_ex_iff using 5 6 by (intro bexI[of _ ?m]) simp_all
  have 8: "before @ [?m] @ after \<noteq> []" by simp
  show ?thesis unfolding detect_intent_def Let_def 1 using 2 3 4 7 8 by simp
qed

text \<open>
  Claim C8. \<open>detect_intent\<close> answers \<open>general\<close> (general chat) to the utterance "hi" with an
  empty history; it answers \<open>booking\<close> to "book a doctor appointment", whatever the history;
  and it answers \<open>booking\<close> to "john@example.com" whenever one of the last three messages of
  the history is an assistant message that contains the question "What's your email
  address?": whatever text surrounds the question, whatever came before it, and whatever
  the at most two messages after it are (the program hands over a history that already
  ends with the user's own message).
\<close>

theorem detect_intent_examples:
  "detect_intent ''hi'' [] = ''general''
   \<and> detect_intent ''book a doctor appointment'' history = ''booking''
   \<and> (length after \<le> 2 \<longrightarrow>
        detect_intent ''john@example.com''
          (before @ [\<lparr>role = ''assistant'',
                      content = pre @ ''What'' @ sq @ ''s your email address?'' @ post\<rparr>] @ after)
        = ''booking'')"
  by (intro conjI impI detect_intent_hi detect_intent_book detect_intent_email_reply)

theorem detect_intent_examples_witness:
  "length [\<lparr>role = ''user'', content = ''john@example.com''\<rparr>] \<le> 2
   \<and> detect_intent ''john@example.com''
        ([\<lparr>role = ''user'', content = ''I need a haircut''\<rparr>]
         @ [\<lparr>role = ''assistant'', content = [] @ ''What'' @ sq @ ''s your email address?'' @ []\<rparr>]
         @ [\<lparr>role = ''user'', content = ''john@example.com''\<rparr>]) = ''booking''"
  using detect_intent_examples
     [where after = "[\<lparr>role = ''user'', content = ''john@example.com''\<rparr>]"
        and before = "[\<lparr>role = ''user'', content = ''I need a haircut''\<rparr>]"
        and pre = "[]" and post = "[]"]
  by simp

section \<open>The matcher returns texts of the pattern\<close>

lemma take_takeWhile_subset:
  "k \<le> length (takeWhile P s) \<Longrightarrow> set (take k s) \<subseteq> {c. P c}"
proof -
  assume k: "k \<le> length (takeWhile P s)"
  have "take k s = take k (takeWhile P s @ dropWhile P s)" by simp
  also have "\<dots> = take k (takeWhile P s)" using k by (simp del: takeWhile_dropWhile_id)
  finally have "set (take k s) \<subseteq> set (takeWhile P s)" by (metis set_take_subset)
  moreover have "set (takeWhile P s) \<subseteq> {c. P c}" by (auto dest: set_takeWhileD)
  ultimately show ?thesis by blast
qed

lemma rx_match_sound:
  "(q, t, caps') \<in> set (rx_match r (p, s, caps)) \<Longrightarrow> \<exists>m. s = m @ t \<and> m \<in> lang r"
proof (induction r arbitrary: p s caps q t caps')
  case (Cls cs)
  then show ?case by (auto split: list.splits if_splits)
next
  case (Seq a b)
  from Seq.prems obtain q1 t1 c1 where
    1: "(q1, t1, c1) \<in> set (rx_match a (p, s, caps))" and
    2: "(q, t, caps') \<in> set (rx_match b (q1, t1, c1))"
    by auto
  from Seq.IH(1)[OF 1] obtain u where u: "s = u @ t1" "u \<in> lang a" by blast
  from Seq.IH(2)[OF 2] obtain v where v: "t1 = v @ t" "v \<in> lang b" by blast
  have "s = (u @ v) @ t" using u v by simp
  moreover have "u @ v \<in> lang (Seq a b)" using u v by auto
  ultimately show ?case by blast
next
  case (Alt a b)
  then show ?case by (auto dest: Alt.IH)
next
  case (Rep lo hi cs)
  let ?avail = "length (takeWhile (\<lambda>c. c \<in> set cs) s)"
  let ?most = "case hi of None \<Rightarrow> ?avail | Some h \<Rightarrow> min h ?avail"
  from Rep obtain k where k: "lo \<le> k" "k \<le> ?most" "(q, t, caps') = advance k (p, s, caps)"
    by (auto simp: Let_def)
  then have t: "t = drop k s" by (simp add: advance_def)
  have ka: "k \<le> ?avail" using k(2) by (cases hi) auto
  have kh: "case hi of None \<Rightarrow> True | Some h \<Rightarrow> k \<le> h" using k(2) by (cases hi) auto
  have "set (take k s) \<subseteq> set cs" using take_takeWhile_subset[OF ka] by auto
  moreover have "length (take k s) = k" using ka
    by (metis length_take length_takeWhile_le min.absorb2 order_trans)
  ultimately have "take k s \<in> lang (Rep lo hi cs)" using k(1) kh by (cases hi) auto
  moreover have "s = take k s @ t" using t by simp
  ultimately show ?case by blast
next
  case (Grp a)
  then show ?case by (auto dest: Grp.IH)
next
  case Wordb
  then show ?case by (auto split: if_splits)
next
  case Bol
  then show ?case by (auto split: if_splits)
next
  case Eol
  then show ?case by (auto split: if_splits)
qed

lemma search_from_sound: "search_from r p s = Some m \<Longrightarrow> m \<in> lang r"
proof (induction s arbitrary: p)
  case Nil
  show ?case
  proof (cases "rx_match r (p, [], [])")
    case Nil
    with Nil.prems show ?thesis by simp
  next
    case (Cons pos rest)
    obtain q t c where pos: "pos = (q, t, c)" by (cases pos)
    with Cons have "(q, t, c) \<in> set (rx_match r (p, [], []))" by simp
    from rx_match_sound[OF this] obtain u where "[] = u @ t" "u \<in> lang r" by blast
    moreover have "m = take (length ([]::string) - length t) []" using Nil.prems Cons pos by simp
    ultimately show ?thesis by simp
  qed
next
  case (Cons c cs)
  show ?case
  proof (cases "rx_match r (p, c # cs, [])")
    case Nil
    with Cons.prems have "search_from r (Some c) cs = Some m" by simp
    then show ?thesis by (rule Cons.IH)
  next
    case (Cons pos rest)
    obtain q t k where pos: "pos = (q, t, k)" by (cases pos)
    with Cons have "(q, t, k) \<in> set (rx_match r (p, c # cs, []))" by simp
    from rx_match_sound[OF this] obtain u where u: "c # cs = u @ t" "u \<in> lang r" by blast
    have "m = take (length (c # cs) - length t) (c # cs)" using Cons.prems Cons pos by simp
    also have "\<dots> = u" using u(1) by simp
    finally show ?thesis using u(2) by simp
  qed
qed

section \<open>Extraction never raises and never touches a known field\<close>


lemma strip_chars_id: "(\<forall>c \<in> set s. c \<notin> set cs) \<Longrightarrow> strip_chars cs s = s"
proof -
  assume a: "\<forall>c \<in> set s. c \<notin> set cs"
  have dw: "\<And>t. (\<forall>c \<in> set t. c \<notin> set cs) \<Longrightarrow> dropWhile (\<lambda>c. c \<in> set cs) t = t"
    by (case_tac t) auto
  have "dropWhile (\<lambda>c. c \<in> set cs) s = s" using a by (rule dw)
  moreover have "dropWhile (\<lambda>c. c \<in> set cs) (rev s) = rev s" using a by (intro dw) simp
  ultimately show ?thesis by (simp add: strip_chars_def)
qed

lemma digit_not_space: "c \<in> set ascii_digits \<Longrightarrow> c \<notin> set int_space"
  by (auto simp: ascii_digits_def int_space_def)

lemma int_literal_ok_digits: "s \<noteq> [] \<Longrightarrow> set s \<subseteq> set ascii_digits \<Longrightarrow> int_literal_ok s"
proof (induction s rule: int_literal_ok.induct)
  case 1
  then show ?case by simp
next
  case (2 c)
  then show ?case by (simp add: is_digit_def)
next
  case (3 c d cs)
  have "d \<noteq> CHR ''_''" using "3.prems" by (auto simp: ascii_digits_def)
  then show ?case using 3 by (simp add: is_digit_def)
qed

lemma py_int_digits:
  assumes "s \<noteq> []" "set s \<subseteq> set ascii_digits" "length s \<le> 4300"
  shows "py_int s = Some (int (nat_of_digits s))"
proof -
  have 1: "strip_chars int_space s = s"
    using assms(2) by (intro strip_chars_id) (auto dest: digit_not_space)
  have 4: "length (filter is_digit s) \<le> 4300"
    using assms(3) length_filter_le[of is_digit s] by linarith
  have "hd s \<in> set ascii_digits" using assms by (cases s) auto
  then have 2: "hd s \<noteq> CHR ''-''" "hd s \<noteq> CHR ''+''" by (auto simp: ascii_digits_def)
  have 3: "filter (\<lambda>c. c \<noteq> CHR ''_'') s = s"
    using assms(2) by (intro filter_True) (auto simp: ascii_digits_def)
  show ?thesis
    using int_literal_ok_digits[OF assms(1,2)] 2 3 4 by (simp add: py_int_def 1 Let_def)
qed

lemma split_on_append:
  "d \<notin> set a \<Longrightarrow> split_on d (a @ d # b) = a # split_on d b"
  by (induction a) auto

lemma split_on_not_Nil: "split_on d s \<noteq> []"
  by (induction s) (auto split: list.splits)

lemma time_pattern_lang:
  "m \<in> lang time_pattern \<Longrightarrow>
   \<exists>h mi. m = h @ CHR '':'' # mi \<and> h \<noteq> [] \<and> set h \<subseteq> set ascii_digits \<and> length h \<le> 2"
  by (auto simp: time_pattern_def seqs_def)

lemma extract_time_total: "\<exists>x. extract_time user_message known ex = Inr x"
proof (cases "findall_first time_pattern user_message")
  case None
  then show ?thesis by (simp add: extract_time_def)
next
  case (Some m)
  then have "m \<in> lang time_pattern" unfolding findall_first_def by (rule search_from_sound)
  from time_pattern_lang[OF this] obtain h mi where
    m: "m = h @ CHR '':'' # mi" and h: "h \<noteq> []" "set h \<subseteq> set ascii_digits"
    and "length h \<le> 2" by blast
  then have h3: "length h \<le> 4300" by simp
  have "CHR '':'' \<notin> set h" using h(2) by (auto simp: ascii_digits_def)
  then have sp: "split_on CHR '':'' m = h # split_on CHR '':'' mi" unfolding m by (rule split_on_append)
  obtain x xs where xs: "split_on CHR '':'' mi = x # xs"
    using split_on_not_Nil[of "CHR '':''" mi] by (cases "split_on CHR '':'' mi") auto
  show ?thesis
    using Some sp xs py_int_digits[OF h h3] by (simp add: extract_time_def)
qed

lemma extract_booking_info_total: "\<exists>x. extract_booking_info e user_message known = Inr x"
proof -
  obtain x where "extract_time user_message known
             (extract_date user_message known
               (extract_phone user_message known
                 (extract_email user_message known []))) = Inr x"
    using extract_time_total by blast
  then show ?thesis by (simp add: extract_booking_info_def)
qed


lemma has_key_update: "has_key (AList.update k v d) k' = (k' = k \<or> has_key d k')"
  by (simp add: has_key_def update_conv')

lemma fresh_keys_update:
  "fresh_keys known ex \<Longrightarrow> \<not> has_key known k \<Longrightarrow> fresh_keys known (AList.update k v ex)"
  by (auto simp: fresh_keys_def has_key_update)

lemma fresh_extract_email: "fresh_keys known ex \<Longrightarrow> fresh_keys known (extract_email m known ex)"
  by (auto simp: extract_email_def fresh_keys_update split: option.splits)

lemma fresh_extract_phone: "fresh_keys known ex \<Longrightarrow> fresh_keys known (extract_phone m known ex)"
  by (auto simp: extract_phone_def fresh_keys_update split: option.splits)

lemma fresh_extract_date: "fresh_keys known ex \<Longrightarrow> fresh_keys known (extract_date m known ex)"
  by (auto simp: extract_date_def fresh_keys_update split: option.splits)

lemma fresh_extract_time:
  "fresh_keys known ex \<Longrightarrow> extract_time m known ex = Inr ex' \<Longrightarrow> fresh_keys known ex'"
  by (auto simp: extract_time_def fresh_keys_update split: option.splits list.splits if_splits)

lemma fresh_extract_name: "fresh_keys known ex \<Longrightarrow> fresh_keys known (extract_name m known ex)"
  by (auto simp: extract_name_def Let_def fresh_keys_update)

lemma fresh_extract_service: "fresh_keys known ex \<Longrightarrow> fresh_keys known (extract_service e m known ex)"
  by (auto simp: extract_service_def fresh_keys_update split: option.splits)

lemma fresh_extract_booking_info:
  assumes "extract_booking_info e m known = Inr extracted"
  shows "fresh_keys known extracted"
proof -
  let ?a = "extract_date m known (extract_phone m known (extract_email m known []))"
  have a: "fresh_keys known ?a"
    by (intro fresh_extract_date fresh_extract_phone fresh_extract_email) (simp add: fresh_keys_def has_key_def)
  from assms obtain t where t: "extract_time m known ?a = Inr t"
    and ex: "extracted = extract_service e m known (extract_name m known t)"
    by (auto simp: extract_booking_info_def split: sum.splits)
  have "fresh_keys known t" using a t by (rule fresh_extract_time)
  then show ?thesis unfolding ex by (intro fresh_extract_service fresh_extract_name)
qed

lemma map_of_dict_update_other:
  "\<not> has_key e k \<Longrightarrow> map_of (dict_update d e) k = map_of d k"
proof (induction e arbitrary: d)
  case Nil
  then show ?case by (simp add: dict_update_def)
next
  case (Cons kv e)
  obtain k' v' where kv: "kv = (k', v')" by (cases kv)
  from Cons.prems kv have ne: "k' \<noteq> k" and rest: "\<not> has_key e k"
    by (auto simp: has_key_def split: if_splits)
  have "map_of (dict_update d (kv # e)) k = map_of (dict_update (AList.update k' v' d) e) k"
    by (simp add: dict_update_def kv)
  also have "\<dots> = map_of (AList.update k' v' d) k" using rest by (rule Cons.IH)
  also have "\<dots> = map_of d k" using ne by (simp add: update_conv')
  finally show ?case .
qed

text \<open>
  Claim C3. Extraction is additive only. For every environment, utterance and dictionary of
  known fields, \<open>_extract_booking_info\<close> returns a dictionary (it raises nothing), no key of
  the known fields is a key of that dictionary, and merging it into the known fields leaves
  the value of every known field as it was. The field ranges over all keys, so this holds
  for email, phone, date, time, name and the service type \<open>booking_type\<close> alike.
\<close>

theorem extraction_additive:
  "\<exists>extracted. extract_booking_info e user_message known = Inr extracted
     \<and> (\<forall>field. has_key known field \<longrightarrow>
           \<not> has_key extracted field
           \<and> map_of (dict_update known extracted) field = map_of known field)"
proof -
  obtain extracted where ex: "extract_booking_info e user_message known = Inr extracted"
    using extract_booking_info_total by blast
  have "fresh_keys known extracted" using ex by (rule fresh_extract_booking_info)
  then have "\<forall>field. has_key known field \<longrightarrow>
           \<not> has_key extracted field
           \<and> map_of (dict_update known extracted) field = map_of known field"
    by (auto simp: fresh_keys_def map_of_dict_update_other)
  with ex show ?thesis by blast
qed

theorem extraction_additive_witness:
  "has_key [(''email'', ''old@mail.org''), (''booking_type'', ''Consultation'')] ''email''
   \<and> (\<exists>extracted.
        extract_booking_info
          \<lparr>now = \<lparr>year = 2026, month = 11, day = 3, hour = 10, minute = 30, second = 0, microsecond = 0\<rparr>,
           llm_invoke = (\<lambda>messages. None), send_booking_email = (\<lambda>d i. True), db_fault = None\<rparr>
          ''mail me at new@mail.org at 9:30 for a haircut''
          [(''email'', ''old@mail.org''), (''booking_type'', ''Consultation'')] = Inr extracted
        \<and> \<not> has_key extracted ''email''
        \<and> map_of (dict_update [(''email'', ''old@mail.org''), (''booking_type'', ''Consultation'')] extracted)
             ''email'' = Some ''old@mail.org'')"
  using extraction_additive
     [of "\<lparr>now = \<lparr>year = 2026, month = 11, day = 3, hour = 10, minute = 30, second = 0, microsecond = 0\<rparr>,
           llm_invoke = (\<lambda>messages. None), send_booking_email = (\<lambda>d i. True), db_fault = None\<rparr>"
         "''mail me at new@mail.org at 9:30 for a haircut''"
         "[(''email'', ''old@mail.org''), (''booking_type'', ''Consultation'')]"]
  by (auto simp: has_key_def)

section \<open>Each check writes its own key only\<close>










section \<open>Phone numbers\<close>






section \<open>Times of day\<close>



















section \<open>Decimal text and the patterns of \<open>strptime\<close>\<close>











lemma rx_match_eps: "rx_match (Rep 0 (Some 0) []) (p, s, caps) = [(p, s, caps)]"
  by (simp add: advance_def)




section \<open>The calendar\<close>













section \<open>Dates\<close>


















section \<open>The errors come in the order of the checks\<close>









section \<open>Each field is judged on its own\<close>




lemma validate_email_own:
  "map_of errs ''email'' = None \<Longrightarrow>
   map_of (validate_email ex errs) ''email'' = map_of (validate_email ex []) ''email''"
  by (simp add: validate_email_def update_conv' split: option.splits)




section \<open>A turn with validation errors\<close>





section \<open>The confirming state\<close>



















section \<open>The price goes with the service\<close>



















end
